theory Spec2Isabelle
  imports Complex_Main "HOL-Library.AList" "HOL-Library.Log_Nat"
begin

section \<open>Python primitives used by the two scripts\<close>

text \<open>
  The repository holds two scripts: \<^verbatim>\<open>duim.py\<close> (disk usage report) and
  \<^verbatim>\<open>assignment2.py\<close> (memory usage report). Both are embedded here function by
  function. Where the two files define a function of the same name, the one of
  \<^verbatim>\<open>assignment2.py\<close> carries the suffix \<open>_a2\<close>.

  Python's \<open>int\<close> is \<open>int\<close>. Strings are \<open>string\<close>; a character is a code point
  below 256. A Python \<open>float\<close> is modelled by the rational number it denotes, and
  float arithmetic by exact arithmetic on rationals, except inside
  \<open>human_readable\<close>, where the printed decimal digits depend on the binary value and
  binary64 rounding is written out. Exceptions are values of \<open>error\<close>.
\<close>

datatype error =
  ValueError | IndexError | OverflowError | ZeroDivisionError | FileNotFoundError | PermissionError

text \<open>The result of opening a file of \<^verbatim>\<open>/proc\<close> for reading and iterating over its lines.\<close>

datatype source = Lines "string list" | Missing | Unreadable

subsection \<open>Numbers\<close>

text \<open>\<^verbatim>\<open>round(x)\<close> with one argument: the nearest integer, a tie going to the even one.\<close>

definition py_round :: "rat \<Rightarrow> int" where
  "py_round x =
     (let f = \<lfloor>x\<rfloor>; d = x - of_int f
      in if d < 1 / 2 then f
         else if 1 / 2 < d then f + 1
         else if even f then f else f + 1)"

text \<open>\<^verbatim>\<open>int(x)\<close> of a float: truncation towards zero.\<close>

definition py_trunc :: "rat \<Rightarrow> int" where
  "py_trunc x = (if 0 \<le> x then \<lfloor>x\<rfloor> else \<lceil>x\<rceil>)"

text \<open>\<^verbatim>\<open>a / b\<close> on two integers.\<close>

definition py_truediv :: "int \<Rightarrow> int \<Rightarrow> error + rat" where
  "py_truediv a b = (if b = 0 then Inl ZeroDivisionError else Inr (of_int a / of_int b))"


text \<open>
  \<^verbatim>\<open>str(n)\<close> of an integer: \<open>str_digits\<close> writes the decimal digits of a number
  that is not negative, \<open>str_int\<close> puts the sign in front.
\<close>

function str_digits :: "int \<Rightarrow> string" where
  "str_digits n =
     (if n < 10 then [char_of (48 + n)]
      else str_digits (n div 10) @ [char_of (48 + n mod 10)])"
  by pat_completeness auto

termination str_digits
  by (relation "measure nat") auto

declare str_digits.simps [simp del]

definition str_int :: "int \<Rightarrow> string" where
  "str_int i = (if i < 0 then CHR ''-'' # str_digits (- i) else str_digits i)"

subsection \<open>Strings\<close>

text \<open>\<^verbatim>\<open>str.isspace\<close> on one character: the white space among the code points below 256.\<close>

definition isspace :: "char \<Rightarrow> bool" where
  "isspace c =
     (let n = (of_char c :: nat)
      in (9 \<le> n \<and> n \<le> 13) \<or> (28 \<le> n \<and> n \<le> 32) \<or> n = 133 \<or> n = 160)"

definition isdigit :: "char \<Rightarrow> bool" where
  "isdigit c = (let n = (of_char c :: nat) in 48 \<le> n \<and> n \<le> 57)"

definition digit_val :: "char \<Rightarrow> nat" where
  "digit_val c = of_char c - 48"

definition startswith :: "string \<Rightarrow> string \<Rightarrow> bool" where
  "startswith s p = (take (length p) s = p)"

text \<open>
  \<^verbatim>\<open>s.split()\<close>: the maximal runs of characters that are not white space.
\<close>

function py_split :: "string \<Rightarrow> string list" where
  "py_split s =
     (let s1 = dropWhile isspace s
      in if s1 = [] then []
         else takeWhile (\<lambda>c. \<not> isspace c) s1 # py_split (dropWhile (\<lambda>c. \<not> isspace c) s1))"
  by pat_completeness auto

termination py_split
proof (relation "measure length")
  show "wf (measure length)" by simp
next
  fix s s1 :: string
  assume a: "s1 = dropWhile isspace s" "s1 \<noteq> []"
  obtain x xs where s1: "s1 = x # xs" using a(2) by (meson neq_Nil_conv)
  have "dropWhile isspace s = x # xs" using a(1) s1 by simp
  then have nx: "\<not> isspace x" by (metis hd_dropWhile list.sel(1) list.distinct(1))
  have "length (dropWhile (\<lambda>c. \<not> isspace c) s1) \<le> length xs"
    using s1 nx by (simp add: length_dropWhile_le)
  moreover have "length s1 \<le> length s" using a by (simp add: length_dropWhile_le)
  ultimately show "(dropWhile (\<lambda>c. \<not> isspace c) s1, s) \<in> measure length"
    using s1 by simp
qed

declare py_split.simps [simp del]

text \<open>
  \<^verbatim>\<open>s.split(maxsplit=1)\<close>: leading white space is dropped, the first run is cut
  off, the white space after it is dropped, and what is left (if anything) is the second
  item, with its inner and trailing white space kept.
\<close>

definition split_max1 :: "string \<Rightarrow> string list" where
  "split_max1 s =
     (let s1 = dropWhile isspace s
      in if s1 = [] then []
         else let tok = takeWhile (\<lambda>c. \<not> isspace c) s1;
                  r = dropWhile isspace (dropWhile (\<lambda>c. \<not> isspace c) s1)
              in if r = [] then [tok] else [tok, r])"

text \<open>
  \<^verbatim>\<open>int(s)\<close> of a string without white space: an optional sign, then decimal digits,
  where single underscores may stand between digits. \<open>None\<close> is \<open>ValueError\<close>.
\<close>

fun int_body :: "nat \<Rightarrow> string \<Rightarrow> nat option" where
  "int_body acc [] = Some acc"
| "int_body acc [c] = (if isdigit c then Some (10 * acc + digit_val c) else None)"
| "int_body acc (c # d # cs) =
     (if c = CHR ''_'' then (if isdigit d then int_body acc (d # cs) else None)
      else if isdigit c then int_body (10 * acc + digit_val c) (d # cs)
      else None)"

definition int_unsigned :: "string \<Rightarrow> nat option" where
  "int_unsigned s =
     (case s of [] \<Rightarrow> None | c # _ \<Rightarrow> if isdigit c then int_body 0 s else None)"

definition py_int :: "string \<Rightarrow> int option" where
  "py_int s =
     (case s of
        [] \<Rightarrow> None
      | c # cs \<Rightarrow>
          if c = CHR ''-'' then map_option (\<lambda>n. - int n) (int_unsigned cs)
          else if c = CHR ''+'' then map_option int (int_unsigned cs)
          else map_option int (int_unsigned s))"

text \<open>\<^verbatim>\<open>int(line.split()[1])\<close>: the second field of a line, read as an integer.\<close>

definition field_int :: "string \<Rightarrow> error + int" where
  "field_int line =
     (case py_split line of
        _ # t # _ \<Rightarrow> (case py_int t of None \<Rightarrow> Inl ValueError | Some v \<Rightarrow> Inr v)
      | _ \<Rightarrow> Inl IndexError)"

subsection \<open>Binary64 values\<close>

text \<open>
  \<open>ilog2 q\<close> is the exponent of the positive rational \<open>q\<close>: the integer \<open>e\<close> with
  \<open>2^e \<le> q < 2^(e+1)\<close>. \<open>binary64 q\<close> is the double nearest to \<open>q\<close> (53 significant
  bits, a tie going to the even significand); the exponent range is not bounded here,
  the one overflow that the code can meet is raised by \<open>int_to_float\<close>.
\<close>

definition ilog2 :: "rat \<Rightarrow> int" where
  "ilog2 q =
     (let (a, b) = quotient_of q; k = bitlen a - bitlen b
      in if 2 powi k \<le> q then k else k - 1)"

definition binary64 :: "rat \<Rightarrow> rat" where
  "binary64 q =
     (if q = 0 then 0
      else let u = 2 powi (ilog2 \<bar>q\<bar> - 52) in of_int (py_round (q / u)) * u)"

text \<open>
  An \<open>int\<close> operand of a float operation is converted first, and that overflows from
  \<open>float_limit\<close> on: the least integer that rounds to \<open>2^1024\<close>.
\<close>

definition float_limit :: int where
  "float_limit = 2 ^ 1024 - 2 ^ 970"

definition int_to_float :: "int \<Rightarrow> error + rat" where
  "int_to_float x =
     (if float_limit \<le> \<bar>x\<bar> then Inl OverflowError else Inr (binary64 (of_int x)))"

text \<open>The format \<^verbatim>\<open>.1f\<close>: one decimal, rounded from the exact value, a tie to even.\<close>

definition fmt_1f :: "rat \<Rightarrow> string" where
  "fmt_1f v =
     (let n = py_round (10 * \<bar>v\<bar>)
      in (if v < 0 then ''-'' else []) @ str_digits (n div 10) @ ''.'' @ str_digits (n mod 10))"

section \<open>duim.py\<close>

text \<open>
  \<^verbatim>\<open>'=' * n\<close> is the empty string when \<open>n\<close> is negative, as \<open>replicate (nat n)\<close> is.
\<close>

definition filled_length :: "rat \<Rightarrow> int \<Rightarrow> int" where
  "filled_length percent total_chars = py_round ((percent / 100) * of_int total_chars)"

definition percent_to_graph :: "rat \<Rightarrow> int \<Rightarrow> error + string" where
  "percent_to_graph percent total_chars =
     (if \<not> (0 \<le> percent \<and> percent \<le> 100) then Inl ValueError
      else Inr (replicate (nat (filled_length percent total_chars)) CHR ''=''
                @ replicate (nat (total_chars - filled_length percent total_chars)) CHR '' ''))"

text \<open>
  The dictionary is an association list in insertion order; assigning to a key that is
  present replaces its value in place, as a Python \<open>dict\<close> does. A line that does not
  unpack into two items, or whose first item is no integer, raises \<open>ValueError\<close> inside
  the \<^verbatim>\<open>try\<close> and is passed over.
\<close>

definition dir_entry :: "string \<Rightarrow> (string \<times> int) option" where
  "dir_entry line =
     (case split_max1 line of
        [sz, directory] \<Rightarrow> map_option (\<lambda>n. (directory, n)) (py_int sz)
      | _ \<Rightarrow> None)"

fun dir_loop :: "(string \<times> int) list \<Rightarrow> string list \<Rightarrow> (string \<times> int) list" where
  "dir_loop dir_dict [] = dir_dict"
| "dir_loop dir_dict (line # rest) =
     (case dir_entry line of
        Some (directory, n) \<Rightarrow> dir_loop (AList.update directory n dir_dict) rest
      | None \<Rightarrow> dir_loop dir_dict rest)"

definition create_dir_dict :: "string list \<Rightarrow> (string \<times> int) list" where
  "create_dir_dict du_output = dir_loop [] du_output"

fun rss_loop :: "int \<Rightarrow> string list \<Rightarrow> error + int" where
  "rss_loop total_rss [] = Inr total_rss"
| "rss_loop total_rss (line # rest) =
     (if startswith line ''Rss:''
      then (case field_int line of
              Inl e \<Rightarrow> Inl e
            | Inr v \<Rightarrow> rss_loop (total_rss + v) rest)
      else rss_loop total_rss rest)"

text \<open>\<open>smaps pid\<close> is what opening \<^verbatim>\<open>/proc/<pid>/smaps\<close> gives.\<close>

definition get_rss_total :: "('pid \<Rightarrow> source) \<Rightarrow> 'pid \<Rightarrow> error + int" where
  "get_rss_total smaps pid =
     (case smaps pid of
        Lines f \<Rightarrow> rss_loop 0 f
      | Missing \<Rightarrow> Inr 0
      | Unreadable \<Rightarrow> Inl PermissionError)"

text \<open>
  The two formatters of \<^verbatim>\<open>main\<close>: with \<^verbatim>\<open>-H\<close> the scaled one, otherwise the
  plain one. \<^verbatim>\<open>x / 1e9\<close> converts \<open>x\<close> to a float and divides in binary64.
\<close>

definition scaled :: "int \<Rightarrow> rat \<Rightarrow> string \<Rightarrow> error + string" where
  "scaled x d unit =
     (case int_to_float x of
        Inl e \<Rightarrow> Inl e
      | Inr f \<Rightarrow> Inr (fmt_1f (binary64 (f / d)) @ unit))"

definition human_readable :: "bool \<Rightarrow> int \<Rightarrow> error + string" where
  "human_readable flag x =
     (if flag then
        (if 10 ^ 9 \<le> x then scaled x (10 ^ 9) '' G''
         else if 10 ^ 6 \<le> x then scaled x (10 ^ 6) '' M''
         else scaled x (10 ^ 3) '' K'')
      else Inr (str_int x @ '' B''))"

record args =
  arg_target :: string
  arg_human_readable :: bool
  arg_length :: int

text \<open>What \<^verbatim>\<open>main\<close> prints: the total line, then one line per entry of the dictionary.\<close>

record row =
  row_percent :: rat
  row_bar :: string
  row_size :: string
  row_directory :: string

record report =
  total_text :: string
  total_target :: string
  rows :: "row list"

definition total_size :: "(string \<times> int) list \<Rightarrow> int" where
  "total_size dir_dict = sum_list (map snd dir_dict)"

text \<open>\<^verbatim>\<open>(size / total_size) * 100 if total_size > 0 else 0\<close>\<close>

definition percent_of :: "int \<Rightarrow> int \<Rightarrow> error + rat" where
  "percent_of sz tot =
     (if 0 < tot then (case py_truediv sz tot of Inl e \<Rightarrow> Inl e | Inr q \<Rightarrow> Inr (q * 100))
      else Inr 0)"

fun print_rows :: "args \<Rightarrow> int \<Rightarrow> (string \<times> int) list \<Rightarrow> error + row list" where
  "print_rows a tot [] = Inr []"
| "print_rows a tot ((directory, sz) # rest) =
     (case percent_of sz tot of
        Inl e \<Rightarrow> Inl e
      | Inr percent \<Rightarrow>
          (case percent_to_graph percent (arg_length a) of
             Inl e \<Rightarrow> Inl e
           | Inr bar \<Rightarrow>
               (case human_readable (arg_human_readable a) sz of
                  Inl e \<Rightarrow> Inl e
                | Inr txt \<Rightarrow>
                    (case print_rows a tot rest of
                       Inl e \<Rightarrow> Inl e
                     | Inr rs \<Rightarrow>
                         Inr (\<lparr>row_percent = percent, row_bar = bar,
                               row_size = txt, row_directory = directory\<rparr> # rs)))))"

text \<open>
  \<^verbatim>\<open>main\<close> from the line \<^verbatim>\<open>total_size = sum(dir_dict.values())\<close> on, and then
  \<^verbatim>\<open>main\<close> itself; \<open>du_output\<close> is the list of lines that \<^verbatim>\<open>call_du_sub\<close> returned.
\<close>

definition main_body :: "args \<Rightarrow> (string \<times> int) list \<Rightarrow> error + report" where
  "main_body a dir_dict =
     (let tot = total_size dir_dict
      in case human_readable (arg_human_readable a) tot of
           Inl e \<Rightarrow> Inl e
         | Inr t \<Rightarrow>
             (case print_rows a tot dir_dict of
                Inl e \<Rightarrow> Inl e
              | Inr rs \<Rightarrow> Inr \<lparr>total_text = t, total_target = arg_target a, rows = rs\<rparr>))"

definition main :: "args \<Rightarrow> string list \<Rightarrow> error + report" where
  "main a du_output = main_body a (create_dir_dict du_output)"

section \<open>assignment2.py\<close>

text \<open>Here \<open>percent\<close> is a fraction of 1: \<^verbatim>\<open>main\<close> passes \<^verbatim>\<open>used_mem / total_mem\<close>.\<close>





fun avail_loop :: "int \<Rightarrow> int \<Rightarrow> string list \<Rightarrow> error + int \<times> int" where
  "avail_loop mem_free mem_available [] = Inr (mem_free, mem_available)"
| "avail_loop mem_free mem_available (line # rest) =
     (if startswith line ''MemAvailable''
      then (case field_int line of
              Inl e \<Rightarrow> Inl e
            | Inr v \<Rightarrow> avail_loop mem_free v rest)
      else if startswith line ''MemFree''
      then (case field_int line of
              Inl e \<Rightarrow> Inl e
            | Inr v \<Rightarrow> avail_loop v mem_available rest)
      else avail_loop mem_free mem_available rest)"

text \<open>\<open>meminfo\<close> is what opening \<^verbatim>\<open>/proc/meminfo\<close> gives.\<close>

definition get_avail_mem :: "source \<Rightarrow> error + int" where
  "get_avail_mem meminfo =
     (case meminfo of
        Lines f \<Rightarrow>
          (case avail_loop 0 0 f of
             Inl e \<Rightarrow> Inl e
           | Inr (mem_free, mem_available) \<Rightarrow>
               Inr (if mem_available \<noteq> 0 then mem_available else mem_free * 2))
      | Missing \<Rightarrow> Inl FileNotFoundError
      | Unreadable \<Rightarrow> Inl PermissionError)"

definition rss_mem_of_pid :: "(int \<Rightarrow> source) \<Rightarrow> int \<Rightarrow> error + int" where
  "rss_mem_of_pid smaps pid =
     (case smaps pid of
        Lines f \<Rightarrow> rss_loop 0 f
      | Missing \<Rightarrow> Inr 0
      | Unreadable \<Rightarrow> Inl PermissionError)"

section \<open>The bar as the specification words it\<close>


section \<open>Rounding and truncation\<close>









lemma py_trunc_nonneg: "0 \<le> x \<Longrightarrow> py_trunc x = \<lfloor>x\<rfloor>"
  by (simp add: py_trunc_def)

section \<open>The bar of percent_to_graph\<close>
















section \<open>Reading /proc\<close>

lemma startswithD: "startswith l p \<Longrightarrow> \<exists>r. l = p @ r"
  unfolding startswith_def by (metis append_take_drop_id)

lemma MemAvailable_not_MemFree:
  assumes "startswith l ''MemAvailable''"
  shows "\<not> startswith l ''MemFree''"
proof -
  obtain r where "l = ''MemAvailable'' @ r" using startswithD [OF assms] by blast
  then show ?thesis by (simp add: startswith_def)
qed

lemma avail_loop_values:
  assumes "map field_int (filter (\<lambda>l. startswith l ''MemAvailable'') f) = map Inr as"
    and "map field_int (filter (\<lambda>l. startswith l ''MemFree'') f) = map Inr vs"
  shows "avail_loop mf ma f = Inr (last (mf # vs), last (ma # as))"
  using assms
proof (induction f arbitrary: mf ma as vs)
  case Nil
  then show ?case by simp
next
  case (Cons line rest)
  show ?case
  proof (cases "startswith line ''MemAvailable''")
    case True
    then have nf: "\<not> startswith line ''MemFree''" by (rule MemAvailable_not_MemFree)
    from Cons.prems(1) True obtain a as' where as: "as = a # as'"
      and a: "field_int line = Inr a"
      and rest: "map field_int (filter (\<lambda>l. startswith l ''MemAvailable'') rest) = map Inr as'"
      by (cases as) auto
    have "avail_loop mf a rest = Inr (last (mf # vs), last (a # as'))"
      using Cons.IH [OF rest] Cons.prems(2) nf by simp
    then show ?thesis using True a as by simp
  next
    case False
    note na = this
    show ?thesis
    proof (cases "startswith line ''MemFree''")
      case True
      from Cons.prems(2) True obtain v vs' where vs: "vs = v # vs'"
        and v: "field_int line = Inr v"
        and rest: "map field_int (filter (\<lambda>l. startswith l ''MemFree'') rest) = map Inr vs'"
        by (cases vs) auto
      have "avail_loop v ma rest = Inr (last (v # vs'), last (ma # as))"
        using Cons.IH [OF _ rest] Cons.prems(1) na by simp
      then show ?thesis using True na v vs by simp
    next
      case False
      then show ?thesis using na Cons.IH [of as vs mf ma] Cons.prems by simp
    qed
  qed
qed

lemma rss_loop_sum:
  assumes "map field_int (filter (\<lambda>l. startswith l ''Rss:'') f) = map Inr vs"
  shows "rss_loop acc f = Inr (acc + sum_list vs)"
  using assms
proof (induction f arbitrary: acc vs)
  case Nil
  then show ?case by simp
next
  case (Cons line rest)
  show ?case
  proof (cases "startswith line ''Rss:''")
    case True
    from Cons.prems True obtain v vs' where vs: "vs = v # vs'"
      and v: "field_int line = Inr v"
      and rest: "map field_int (filter (\<lambda>l. startswith l ''Rss:'') rest) = map Inr vs'"
      by (cases vs) auto
    show ?thesis using Cons.IH [OF rest, of "acc + v"] True v vs by simp
  next
    case False
    then show ?thesis using Cons.IH [of vs acc] Cons.prems by simp
  qed
qed

text \<open>
  Claim C8. When no line of the memory-info source begins with \<open>MemAvailable\<close>,
  \<open>get_avail_mem\<close> returns twice the MemFree value: twice the integer of the last line
  that begins with \<open>MemFree\<close> (\<open>vs\<close> lists the integers of those lines in order), and 0
  when there is none. A source with only \<^verbatim>\<open>MemTotal: 1000 kB\<close> and
  \<^verbatim>\<open>MemFree: 100 kB\<close> gives 200.
\<close>

theorem get_avail_mem_fallback:
  assumes "filter (\<lambda>l. startswith l ''MemAvailable'') f = []"
    and "map field_int (filter (\<lambda>l. startswith l ''MemFree'') f) = map Inr vs"
  shows "get_avail_mem (Lines f) = Inr (2 * (if vs = [] then 0 else last vs))"
proof -
  have "map field_int (filter (\<lambda>l. startswith l ''MemAvailable'') f) = map Inr []"
    using assms(1) by simp
  from avail_loop_values [OF this assms(2), of 0 0]
  show ?thesis by (simp add: get_avail_mem_def)
qed

theorem get_avail_mem_fallback_witness:
  "filter (\<lambda>l. startswith l ''MemAvailable'')
     [''MemTotal:       1000 kB'' @ [CHR 0x0A], ''MemFree:         100 kB'' @ [CHR 0x0A]] = []
   \<and> map field_int (filter (\<lambda>l. startswith l ''MemFree'')
       [''MemTotal:       1000 kB'' @ [CHR 0x0A], ''MemFree:         100 kB'' @ [CHR 0x0A]])
      = map Inr [100]
   \<and> get_avail_mem
       (Lines [''MemTotal:       1000 kB'' @ [CHR 0x0A], ''MemFree:         100 kB'' @ [CHR 0x0A]])
      = Inr 200"
proof -
  let ?f = "[''MemTotal:       1000 kB'' @ [CHR 0x0A], ''MemFree:         100 kB'' @ [CHR 0x0A]]"
  have a: "filter (\<lambda>l. startswith l ''MemAvailable'') ?f = []" by code_simp
  have b: "map field_int (filter (\<lambda>l. startswith l ''MemFree'') ?f) = map Inr [100]"
    by code_simp
  have c: "get_avail_mem (Lines ?f) = Inr 200"
    using get_avail_mem_fallback [OF a b] by simp
  show ?thesis by (intro conjI a b c)
qed

text \<open>
  Claim C9. \<open>rss_mem_of_pid\<close> and \<open>get_rss_total\<close> return the sum of the integers of all
  lines that begin with \<open>Rss:\<close> (\<open>vs\<close> lists them in order), and 0 when the smaps file
  of the process does not exist. Three such lines of 100, 200 and 50 give 350.
\<close>

theorem rss_sum:
  fixes smaps :: "int \<Rightarrow> source" and smaps' :: "'pid \<Rightarrow> source"
  shows "(smaps pid = Missing \<longrightarrow> rss_mem_of_pid smaps pid = Inr 0)
       \<and> (smaps' pid' = Missing \<longrightarrow> get_rss_total smaps' pid' = Inr 0)
       \<and> (smaps pid = Lines f
            \<and> map field_int (filter (\<lambda>l. startswith l ''Rss:'') f) = map Inr vs
          \<longrightarrow> rss_mem_of_pid smaps pid = Inr (sum_list vs))
       \<and> (smaps' pid' = Lines f
            \<and> map field_int (filter (\<lambda>l. startswith l ''Rss:'') f) = map Inr vs
          \<longrightarrow> get_rss_total smaps' pid' = Inr (sum_list vs))"
  using rss_loop_sum [of f vs 0]
  by (simp add: rss_mem_of_pid_def get_rss_total_def)

theorem rss_sum_witness:
  "rss_mem_of_pid
     (\<lambda>pid. if pid = 1 then Lines [''Size:   132 kB'' @ [CHR 0x0A], ''Rss:    100 kB'' @ [CHR 0x0A],
                                    ''Rss:    200 kB'' @ [CHR 0x0A], ''Pss:     10 kB'' @ [CHR 0x0A],
                                    ''Rss:     50 kB'' @ [CHR 0x0A]]
            else Missing) 1 = Inr 350
   \<and> get_rss_total
     (\<lambda>pid. if pid = ''1'' then Lines [''Size:   132 kB'' @ [CHR 0x0A], ''Rss:    100 kB'' @ [CHR 0x0A],
                                    ''Rss:    200 kB'' @ [CHR 0x0A], ''Pss:     10 kB'' @ [CHR 0x0A],
                                    ''Rss:     50 kB'' @ [CHR 0x0A]]
            else Missing) ''1'' = Inr 350
   \<and> rss_mem_of_pid (\<lambda>pid. Missing) 2 = Inr 0
   \<and> get_rss_total (\<lambda>pid. Missing) ''2'' = Inr 0"
proof -
  let ?f = "[''Size:   132 kB'' @ [CHR 0x0A], ''Rss:    100 kB'' @ [CHR 0x0A],
             ''Rss:    200 kB'' @ [CHR 0x0A], ''Pss:     10 kB'' @ [CHR 0x0A],
             ''Rss:     50 kB'' @ [CHR 0x0A]]"
  let ?m = "\<lambda>pid :: int. if pid = 1 then Lines ?f else Missing"
  let ?n = "\<lambda>pid :: string. if pid = ''1'' then Lines ?f else Missing"
  have v: "map field_int (filter (\<lambda>l. startswith l ''Rss:'') ?f) = map Inr [100, 200, 50]"
    by code_simp
  have a: "rss_mem_of_pid ?m 1 = Inr 350"
    using rss_sum [of ?m 1 ?n "''1''" ?f "[100, 200, 50]"] v by simp
  have b: "get_rss_total ?n ''1'' = Inr 350"
    using rss_sum [of ?m 1 ?n "''1''" ?f "[100, 200, 50]"] v by simp
  have c: "rss_mem_of_pid (\<lambda>pid. Missing) 2 = Inr 0"
    using rss_sum [of "\<lambda>pid. Missing" 2 "\<lambda>pid :: string. Missing" "''2''" "[]" "[]"] by simp
  have d: "get_rss_total (\<lambda>pid. Missing) ''2'' = Inr 0"
    using rss_sum [of "\<lambda>pid. Missing" 2 "\<lambda>pid :: string. Missing" "''2''" "[]" "[]"] by simp
  show ?thesis by (intro conjI a b c d)
qed

text \<open>
  Claim C10. When the last line that begins with \<open>MemAvailable\<close> carries the value 0,
  \<open>get_avail_mem\<close> returns twice the MemFree value, as it does when there is no such
  line.
\<close>

theorem get_avail_mem_zero_available:
  assumes "map field_int (filter (\<lambda>l. startswith l ''MemAvailable'') f) = map Inr as"
    and "as \<noteq> []" and "last as = 0"
    and "map field_int (filter (\<lambda>l. startswith l ''MemFree'') f) = map Inr vs"
  shows "get_avail_mem (Lines f) = Inr (2 * (if vs = [] then 0 else last vs))"
proof -
  from avail_loop_values [OF assms(1) assms(4), of 0 0]
  show ?thesis using assms(2,3) by (simp add: get_avail_mem_def)
qed

theorem get_avail_mem_zero_available_witness:
  "map field_int (filter (\<lambda>l. startswith l ''MemAvailable'')
       [''MemFree:         100 kB'' @ [CHR 0x0A], ''MemAvailable:      0 kB'' @ [CHR 0x0A]])
      = map Inr [0]
   \<and> [0 :: int] \<noteq> [] \<and> last [0 :: int] = 0
   \<and> map field_int (filter (\<lambda>l. startswith l ''MemFree'')
       [''MemFree:         100 kB'' @ [CHR 0x0A], ''MemAvailable:      0 kB'' @ [CHR 0x0A]])
      = map Inr [100]
   \<and> get_avail_mem
       (Lines [''MemFree:         100 kB'' @ [CHR 0x0A], ''MemAvailable:      0 kB'' @ [CHR 0x0A]])
      = Inr 200"
proof -
  let ?f = "[''MemFree:         100 kB'' @ [CHR 0x0A], ''MemAvailable:      0 kB'' @ [CHR 0x0A]]"
  have a: "map field_int (filter (\<lambda>l. startswith l ''MemAvailable'') ?f) = map Inr [0]"
    by code_simp
  have n: "[0 :: int] \<noteq> []" and l: "last [0 :: int] = 0" by simp_all
  have b: "map field_int (filter (\<lambda>l. startswith l ''MemFree'') ?f) = map Inr [100]"
    by code_simp
  have c: "get_avail_mem (Lines ?f) = Inr 200"
    using get_avail_mem_zero_available [OF a n l b] by simp
  show ?thesis by (intro conjI a n l b c)
qed

section \<open>The disk report\<close>

lemma scaled_value:
  "\<bar>x\<bar> < float_limit \<Longrightarrow>
     scaled x d unit = Inr (fmt_1f (binary64 (binary64 (of_int x) / d)) @ unit)"
  by (simp add: scaled_def int_to_float_def)




text \<open>
  Claim C7, as the code has it. With \<^verbatim>\<open>-H\<close> the formatter of \<^verbatim>\<open>main\<close> writes a
  scaled number and then the unit: G from \<open>10^9\<close> on, M from \<open>10^6\<close> on, and K for every
  smaller value, also below \<open>10^3\<close>; it has no byte-scale branch, so 999 is written
  \<^verbatim>\<open>1.0 K\<close>. Without \<^verbatim>\<open>-H\<close> every value is written as its digits and
  \<^verbatim>\<open> B\<close>. 1000 gives \<^verbatim>\<open>1.0 K\<close>, 1000000 gives \<^verbatim>\<open>1.0 M\<close> and 1000000000 gives
  \<^verbatim>\<open>1.0 G\<close>.
\<close>

theorem human_readable_units:
  "(\<bar>x\<bar> < float_limit \<longrightarrow>
      (\<exists>num. human_readable True x
         = Inr (num @ (if 10 ^ 9 \<le> x then '' G'' else if 10 ^ 6 \<le> x then '' M'' else '' K''))))
   \<and> human_readable False x = Inr (str_int x @ '' B'')
   \<and> human_readable True 999 = Inr ''1.0 K''
   \<and> human_readable True 1000 = Inr ''1.0 K''
   \<and> human_readable True 999999 = Inr ''1000.0 K''
   \<and> human_readable True 1000000 = Inr ''1.0 M''
   \<and> human_readable True 1000000000 = Inr ''1.0 G''
   \<and> human_readable False 999 = Inr ''999 B''"
proof -
  have 1: "\<bar>x\<bar> < float_limit \<longrightarrow>
      (\<exists>num. human_readable True x
         = Inr (num @ (if 10 ^ 9 \<le> x then '' G'' else if 10 ^ 6 \<le> x then '' M'' else '' K'')))"
    by (simp add: human_readable_def scaled_value)
  have 2: "human_readable False x = Inr (str_int x @ '' B'')"
    by (simp add: human_readable_def)
  have 3: "human_readable True 999 = Inr ''1.0 K''" by code_simp
  have 4: "human_readable True 1000 = Inr ''1.0 K''" by code_simp
  have 5: "human_readable True 999999 = Inr ''1000.0 K''" by code_simp
  have 6: "human_readable True 1000000 = Inr ''1.0 M''" by code_simp
  have 7: "human_readable True 1000000000 = Inr ''1.0 G''" by code_simp
  have 8: "human_readable False 999 = Inr ''999 B''" by code_simp
  show ?thesis by (intro conjI 1 2 3 4 5 6 7 8)
qed

theorem human_readable_units_witness:
  "\<bar>500 :: int\<bar> < float_limit \<and> human_readable True 500 = Inr ''0.5 K''
   \<and> human_readable False 500 = Inr ''500 B''"
proof -
  have b: "\<bar>500 :: int\<bar> < float_limit" by code_simp
  have "\<exists>num. human_readable True 500
         = Inr (num @ (if (10 :: int) ^ 9 \<le> 500 then '' G''
                        else if (10 :: int) ^ 6 \<le> 500 then '' M'' else '' K''))"
    using human_readable_units [of 500] b by blast
  then obtain num where n: "human_readable True 500 = Inr (num @ '' K'')" by auto
  have e: "human_readable True 500 = Inr ''0.5 K''" by code_simp
  have "human_readable False 500 = Inr (str_int 500 @ '' B'')"
    using human_readable_units [of 500] by blast
  moreover have "str_int 500 = ''500''" by code_simp
  ultimately have f: "human_readable False 500 = Inr ''500 B''" by simp
  show ?thesis by (intro conjI b e f)
qed

theorem human_readable_units_counterexample:
  "human_readable True 999 = Inr ''1.0 K'' \<and> human_readable True 999 \<noteq> Inr ''999 B''
   \<and> human_readable True 500 = Inr ''0.5 K''"
  by code_simp










text \<open>
  Claim C5 fails on the code: \<open>create_dir_dict\<close> keeps the line that \<^verbatim>\<open>du\<close> prints
  for the target directory itself, so the total that \<^verbatim>\<open>main\<close> prints, and divides by,
  counts the target's own line on top of its children. For two children of 100 and 200
  and the target's line of 304, the total printed is 604 and the children come out at
  16.6 and 33.1 percent.
\<close>

theorem main_total_includes_target_line:
  "main \<lparr>arg_target = ''.'', arg_human_readable = False, arg_length = 20\<rparr>
        [''100'' @ [CHR 0x09] @ ''./a'', ''200'' @ [CHR 0x09] @ ''./b'',
         ''304'' @ [CHR 0x09] @ ''.'']
   = Inr \<lparr>total_text = ''604 B'', total_target = ''.'',
           rows = [\<lparr>row_percent = 2500 / 151, row_bar = ''===                 '',
                     row_size = ''100 B'', row_directory = ''./a''\<rparr>,
                   \<lparr>row_percent = 5000 / 151, row_bar = ''=======             '',
                     row_size = ''200 B'', row_directory = ''./b''\<rparr>,
                   \<lparr>row_percent = 7600 / 151, row_bar = ''==========          '',
                     row_size = ''304 B'', row_directory = ''.''\<rparr>]\<rparr>"
  by code_simp

end
